theory Spec2Isabelle
  imports Complex_Main "HOL-Library.Sublist"
begin

section \<open>Wee: the hot-reload renderer of \<^verbatim>\<open>wee.py\<close>\<close>

text \<open>
  A shallow embedding of \<^verbatim>\<open>src/wee.py\<close>: the configuration, the template
  renderer with its cache, the file watcher with its debounce, the context loader and the
  render pipeline. Mutation is explicit state passing, an exception is a value of
  \<open>error\<close>, and everything a call does to the outside (a line printed, a file
  written, a template file read by the engine, a viewer started) is an \<open>effect\<close>,
  returned in the order the source performs it.

  Time stamps (\<^verbatim>\<open>time.time() * 1000\<close>, \<^verbatim>\<open>os.path.getmtime\<close>) are Python floats;
  they are modelled as reals, so the rounding of a float is not part of the model.
\<close>

subsection \<open>Values from outside the program\<close>

text \<open>What \<^verbatim>\<open>json.load\<close> returns, and what a template is rendered against.\<close>

datatype json =
    JNull
  | JBool bool
  | JInt int
  | JFloat real
  | JStr string
  | JArr "json list"
  | JObj "(string \<times> json) list"

text \<open>The exceptions the program can meet, by the call that raises them.\<close>

datatype error =
    OSError               \<comment> \<open>\<^verbatim>\<open>open\<close>, \<^verbatim>\<open>os.path.getmtime\<close>\<close>
  | JSONDecodeError       \<comment> \<open>\<^verbatim>\<open>json.load\<close>\<close>
  | TypeError             \<comment> \<open>\<^verbatim>\<open>os.path.basename(None)\<close>\<close>
  | TemplateNotFound      \<comment> \<open>\<^verbatim>\<open>env.get_template\<close>: no search directory has the file\<close>
  | TemplateSyntaxError   \<comment> \<open>\<^verbatim>\<open>env.get_template\<close>: the source does not compile\<close>
  | TemplateError         \<comment> \<open>\<^verbatim>\<open>template.render\<close>\<close>
  | ConversionError       \<comment> \<open>\<^verbatim>\<open>HTML(...).write_pdf\<close>\<close>

text \<open>
  A loaded template handle: all the program does with one is call
  \<^verbatim>\<open>render(context)\<close>, which returns the markup or raises.
\<close>

type_synonym template = "json \<Rightarrow> error + string"

text \<open>
  The environment of one call, as the program reads it: the file system, the JSON parser,
  the template compiler, the PDF converter, the process spawner and the calendar.
  \<open>compile_template w source\<close> is the handle the engine compiles from a template's
  source text; \<open>None\<close> stands for the exception of the call throughout.
\<close>

record world =
  abspath :: "string \<Rightarrow> string"
  path_exists :: "string \<Rightarrow> bool"
  getmtime :: "string \<Rightarrow> real option"
  read_text :: "string \<Rightarrow> string option"
  json_loads :: "string \<Rightarrow> json option"
  isfile :: "string \<Rightarrow> bool"
  compile_template :: "string \<Rightarrow> template option"
  can_write :: "string \<Rightarrow> bool"
  weasyprint :: "string \<Rightarrow> string option"
  popen_ok :: bool
  today :: string

text \<open>What a call does to the outside, one constructor per place of the source.\<close>

datatype effect =
    Print_Rendering "string option"
  | Print_Template_rendered
  | Print_HTML_saved string
  | Print_PDF_generated string
  | Print_Opened_PDF
  | Print_Could_not_open_PDF
  | Print_Change_detected string
  | Print_Context_reloaded
  | Print_Error_reloading_context
  | Print_Error_during_render error
  | Print_Warning_context_file
  | Read_Template_File string            \<comment> \<open>the engine's loader opens and reads a template file\<close>
  | Write_File string string             \<comment> \<open>path and content\<close>
  | Popen_Viewer string

subsection \<open>Strings and paths\<close>

text \<open>
  A Python condition such as \<^verbatim>\<open>if self.config.template_dir:\<close> on an
  \<^verbatim>\<open>Optional[str]\<close> holds when the value is neither \<^verbatim>\<open>None\<close> nor the empty
  string; below it is a case distinction on the option with the test \<open>s \<noteq> []\<close>.
\<close>

text \<open>\<^verbatim>\<open>os.path.basename\<close> and \<^verbatim>\<open>os.path.dirname\<close>, as \<^verbatim>\<open>posixpath\<close> defines them.\<close>

definition os_path_basename :: "string \<Rightarrow> string" where
  "os_path_basename p = rev (takeWhile (\<lambda>c. c \<noteq> CHR ''/'') (rev p))"

definition os_path_dirname :: "string \<Rightarrow> string" where
  "os_path_dirname p =
     (let head = rev (dropWhile (\<lambda>c. c \<noteq> CHR ''/'') (rev p))
      in if head \<noteq> [] \<and> filter (\<lambda>c. c \<noteq> CHR ''/'') head \<noteq> []
         then rev (dropWhile (\<lambda>c. c = CHR ''/'') (rev head))
         else head)"

text \<open>\<^verbatim>\<open>posixpath.join\<close> of two components.\<close>

definition os_path_join :: "string \<Rightarrow> string \<Rightarrow> string" where
  "os_path_join a b =
     (if prefix ''/'' b then b
      else if a = [] \<or> last a = CHR ''/'' then a @ b
      else a @ ''/'' @ b)"

text \<open>
  \<^verbatim>\<open>s.replace(old, new)\<close>: every occurrence of \<open>old\<close> in \<open>s\<close>, found from the left
  and not overlapping, becomes \<open>new\<close>; an empty \<open>old\<close> matches before every character and
  at the end.
\<close>

function str_replace :: "string \<Rightarrow> string \<Rightarrow> string \<Rightarrow> string" where
  "str_replace old new [] = (if old = [] then new else [])"
| "str_replace old new (c # cs) =
     (if old = [] then new @ concat (map (\<lambda>x. x # new) (c # cs))
      else if prefix old (c # cs) then new @ str_replace old new (drop (length old) (c # cs))
      else c # str_replace old new cs)"
  by pat_completeness auto
termination
  by (relation "measure (\<lambda>(old, new, s). length s)") auto

subsection \<open>Configuration\<close>

text \<open>\<^verbatim>\<open>class WeeConfig\<close>.\<close>

record WeeConfig =
  template_file :: "string option"
  template_dir :: "string option"
  output_pdf :: string
  context_file :: "string option"
  context_data :: json
  watch_mode :: bool
  auto_open :: bool
  debounce_ms :: int

definition WeeConfig_init :: WeeConfig where
  "WeeConfig_init =
     \<lparr>template_file = None, template_dir = None, output_pdf = ''output.pdf'',
      context_file = None, context_data = JObj [], watch_mode = False, auto_open = True,
      debounce_ms = 100\<rparr>"

subsection \<open>The template renderer\<close>

text \<open>
  The Jinja2 environment that \<^verbatim>\<open>_get_environment\<close> builds at lines 101 to 106:
  \<^verbatim>\<open>Environment(loader=FileSystemLoader(template_dirs), cache_size=100, auto_reload=True)\<close>.
  It holds the loader's search directories and the engine's own cache of loaded
  templates: for a template name, the handle, the file it was read from and that file's
  modification time when it was read. The bound of 100 entries is not modelled: the
  program asks the environment for one name, and the templates a template extends or
  includes are loaded by its rendering, which the model takes as a whole.
\<close>

record Environment =
  searchpath :: "string list"
  cache :: "string \<Rightarrow> (template \<times> string \<times> real) option"

text \<open>
  \<^verbatim>\<open>FileSystemLoader.get_source\<close>: the first search directory that has the file wins;
  the file is opened and read, and its modification time is read after that.
\<close>

definition loader_get_source ::
  "world \<Rightarrow> string list \<Rightarrow> string \<Rightarrow> (error + string \<times> string \<times> real) \<times> effect list" where
  "loader_get_source w dirs name =
     (case find (isfile w) (map (\<lambda>d. os_path_join d name) dirs) of
        None \<Rightarrow> (Inl TemplateNotFound, [])
      | Some filename \<Rightarrow>
          (case read_text w filename of
             None \<Rightarrow> (Inl OSError, [])
           | Some contents \<Rightarrow>
               (case getmtime w filename of
                  None \<Rightarrow> (Inl OSError, [Read_Template_File filename])
                | Some mtime \<Rightarrow>
                    (Inr (contents, filename, mtime), [Read_Template_File filename]))))"

text \<open>
  What the engine's cache answers with \<^verbatim>\<open>auto_reload=True\<close>: the handle stored for
  the name, when the file it was read from still has the modification time it had then.
\<close>

definition env_cached :: "world \<Rightarrow> Environment \<Rightarrow> string \<Rightarrow> template option" where
  "env_cached w env name =
     (case cache env name of
        None \<Rightarrow> None
      | Some (template, filename, mtime) \<Rightarrow>
          if getmtime w filename = Some mtime then Some template else None)"

text \<open>
  \<^verbatim>\<open>env.get_template(name)\<close> (line 130): answered from the engine's cache when that
  has an up-to-date handle, and no file is read then; otherwise the loader reads the
  file, the source is compiled and the handle is put in the engine's cache.
\<close>

definition env_get_template ::
  "world \<Rightarrow> Environment \<Rightarrow> string \<Rightarrow> (error + template) \<times> Environment \<times> effect list" where
  "env_get_template w env name =
     (case env_cached w env name of
        Some template \<Rightarrow> (Inr template, env, [])
      | None \<Rightarrow>
          (case loader_get_source w (searchpath env) name of
             (Inl e, es) \<Rightarrow> (Inl e, env, es)
           | (Inr (source, filename, mtime), es) \<Rightarrow>
               (case compile_template w source of
                  None \<Rightarrow> (Inl TemplateSyntaxError, env, es)
                | Some template \<Rightarrow>
                    (Inr template,
                     env\<lparr>cache := (cache env)(name \<mapsto> (template, filename, mtime))\<rparr>,
                     es))))"

text \<open>
  \<^verbatim>\<open>class TemplateRenderer\<close>. \<open>env_cache\<close> is the environment object, which
  \<^verbatim>\<open>get_template\<close> changes in place; \<open>template_cache\<close> is the program's own cache of
  handles by absolute path. The renderer's \<^verbatim>\<open>config\<close> attribute is the one
  \<^verbatim>\<open>WeeConfig\<close> object the whole process shares; the functions below take it as an
  argument.
\<close>

record TemplateRenderer =
  env_cache :: "Environment option"
  template_cache :: "string \<Rightarrow> (template \<times> real) option"

definition TemplateRenderer_init :: TemplateRenderer where
  "TemplateRenderer_init = \<lparr>env_cache = None, template_cache = Map.empty\<rparr>"

definition get_environment ::
  "world \<Rightarrow> WeeConfig \<Rightarrow> TemplateRenderer \<Rightarrow> Environment \<times> TemplateRenderer" where
  "get_environment w cfg r =
     (case env_cache r of
        Some env \<Rightarrow> (env, r)
      | None \<Rightarrow>
          let template_dirs =
                (case template_dir cfg of
                   None \<Rightarrow> []
                 | Some d \<Rightarrow> if d \<noteq> [] then [d] else []);
              template_dirs =
                (case template_file cfg of
                   None \<Rightarrow> template_dirs
                 | Some f \<Rightarrow>
                     if f \<noteq> [] then
                       (let template_file_dir = os_path_dirname (abspath w f)
                        in if template_file_dir \<in> set template_dirs then template_dirs
                           else template_dirs @ [template_file_dir])
                     else template_dirs);
              template_dirs = (if template_dirs = [] then [''.''] else template_dirs);
              env = \<lparr>searchpath = template_dirs, cache = Map.empty\<rparr>
          in (env, r\<lparr>env_cache := Some env\<rparr>))"

text \<open>
  Lines 129 to 136 of \<^verbatim>\<open>render_template\<close>: ask the environment for the template,
  render it, and only then store the handle with the modification time read at that
  moment. An exception of any of the three calls leaves before the store; what
  \<^verbatim>\<open>get_template\<close> did to the environment stays.
\<close>

definition load_and_render ::
  "world \<Rightarrow> Environment \<Rightarrow> TemplateRenderer \<Rightarrow> string \<Rightarrow> string \<Rightarrow> json
     \<Rightarrow> (error + string) \<times> TemplateRenderer \<times> effect list" where
  "load_and_render w env r template_name cache_key context =
     (case env_get_template w env template_name of
        (Inl e, env1, es) \<Rightarrow> (Inl e, r\<lparr>env_cache := Some env1\<rparr>, es)
      | (Inr template, env1, es) \<Rightarrow>
          (let r1 = r\<lparr>env_cache := Some env1\<rparr>
           in (case template context of
                 Inl e \<Rightarrow> (Inl e, r1, es)
               | Inr rendered \<Rightarrow>
                   (case getmtime w cache_key of
                      None \<Rightarrow> (Inl OSError, r1, es)
                    | Some mtime \<Rightarrow>
                        (Inr rendered,
                         r1\<lparr>template_cache := (template_cache r1)(cache_key \<mapsto> (template, mtime))\<rparr>,
                         es)))))"

text \<open>
  \<^verbatim>\<open>TemplateRenderer.render_template\<close>. The result is what the call returns or raises,
  the renderer after the call and the effects of the call.
\<close>

definition render_template ::
  "world \<Rightarrow> WeeConfig \<Rightarrow> TemplateRenderer \<Rightarrow> string option \<Rightarrow> json
     \<Rightarrow> (error + string) \<times> TemplateRenderer \<times> effect list" where
  "render_template w cfg r template_path_opt context =
     (let (env, r1) = get_environment w cfg r
      in (case template_path_opt of
            None \<Rightarrow> (Inl TypeError, r1, [])
          | Some template_path \<Rightarrow>
              (let template_name = os_path_basename template_path;
                   template_path_abs = abspath w template_path;
                   cache_key = template_path_abs
               in (case template_cache r1 cache_key of
                     None \<Rightarrow> load_and_render w env r1 template_name cache_key context
                   | Some (cached_template, cached_mtime) \<Rightarrow>
                       (case getmtime w template_path_abs of
                          None \<Rightarrow> (Inl OSError, r1, [])
                        | Some current_mtime \<Rightarrow>
                            if current_mtime \<le> cached_mtime
                            then (cached_template context, r1, [])
                            else load_and_render w env r1 template_name cache_key context)))))"

subsection \<open>The context loader\<close>

text \<open>
  \<^verbatim>\<open>with open(path, 'r', encoding='utf-8') as f: json.load(f)\<close>, the block both
  \<^verbatim>\<open>load_context\<close> and \<^verbatim>\<open>_trigger_render\<close> run inside a \<^verbatim>\<open>try\<close>:
  \<open>None\<close> when the file cannot be opened or does not parse.
\<close>

definition open_json_load :: "world \<Rightarrow> string \<Rightarrow> json option" where
  "open_json_load w path =
     (case read_text w path of
        None \<Rightarrow> None
      | Some txt \<Rightarrow> json_loads w txt)"

text \<open>The default context of \<^verbatim>\<open>load_context\<close>; the date is the day of the call.\<close>

definition default_context :: "world \<Rightarrow> json" where
  "default_context w =
     JObj [(''title'', JStr ''Wee Document''),
           (''date'', JStr (today w)),
           (''author'', JStr ''Wee User''),
           (''description'', JStr ''Document generated with Wee''),
           (''items'',
              JArr [JObj [(''name'', JStr ''Sample Item''), (''quantity'', JInt 1),
                          (''price'', JFloat 9.99)]])]"

definition load_context :: "world \<Rightarrow> WeeConfig \<Rightarrow> json \<times> effect list" where
  "load_context w cfg =
     (case context_file cfg of
        None \<Rightarrow> (default_context w, [])
      | Some cf \<Rightarrow>
          if cf \<noteq> [] \<and> path_exists w cf then
            (case open_json_load w cf of
               Some j \<Rightarrow> (j, [])
             | None \<Rightarrow> (default_context w, [Print_Warning_context_file]))
          else (default_context w, []))"

text \<open>The lookup \<^verbatim>\<open>context[key]\<close> of a template in its context.\<close>

fun json_get :: "json \<Rightarrow> string \<Rightarrow> json option" where
  "json_get (JObj kvs) key = map_of kvs key"
| "json_get j key = None"

subsection \<open>The render pipeline\<close>

definition html_to_pdf :: "world \<Rightarrow> string \<Rightarrow> string \<Rightarrow> (error + unit) \<times> effect list" where
  "html_to_pdf w html_content output_path =
     (case weasyprint w html_content of
        None \<Rightarrow> (Inl ConversionError, [])
      | Some pdf \<Rightarrow>
          if can_write w output_path
          then (Inr (), [Write_File output_path pdf, Print_PDF_generated output_path])
          else (Inl OSError, []))"

text \<open>\<^verbatim>\<open>open_pdf\<close> catches the exception of \<^verbatim>\<open>subprocess.Popen\<close> itself.\<close>

definition open_pdf :: "world \<Rightarrow> string \<Rightarrow> effect list" where
  "open_pdf w pdf_path =
     (if popen_ok w then [Popen_Viewer pdf_path, Print_Opened_PDF]
      else [Print_Could_not_open_PDF])"

text \<open>
  \<^verbatim>\<open>render_and_generate_pdf\<close>. An exception leaves the function where it is raised;
  the effects up to that point and the renderer as it then is are returned with it.
\<close>

definition render_and_generate_pdf ::
  "world \<Rightarrow> WeeConfig \<Rightarrow> TemplateRenderer \<Rightarrow> bool
     \<Rightarrow> (error + unit) \<times> TemplateRenderer \<times> effect list" where
  "render_and_generate_pdf w cfg r auto_open_arg =
     (let e0 = [Print_Rendering (template_file cfg)];
          (context, e1) = load_context w cfg;
          (res, r1, e2) = render_template w cfg r (template_file cfg) context
      in (case res of
            Inl err \<Rightarrow> (Inl err, r1, e0 @ e1 @ e2)
          | Inr html_content \<Rightarrow>
              (let e3 = [Print_Template_rendered];
                   html_output = str_replace ''.pdf'' ''.html'' (output_pdf cfg)
               in if \<not> can_write w html_output then (Inl OSError, r1, e0 @ e1 @ e2 @ e3)
                  else
                    (let e4 = [Write_File html_output html_content, Print_HTML_saved html_output];
                         (res_pdf, e5) = html_to_pdf w html_content (output_pdf cfg)
                     in (case res_pdf of
                           Inl err \<Rightarrow> (Inl err, r1, e0 @ e1 @ e2 @ e3 @ e4 @ e5)
                         | Inr u \<Rightarrow>
                             (Inr (), r1,
                              e0 @ e1 @ e2 @ e3 @ e4 @ e5 @
                              (if auto_open_arg then open_pdf w (output_pdf cfg) else [])))))))"

subsection \<open>The file watcher\<close>

text \<open>
  \<^verbatim>\<open>class FileWatcher\<close>, without the observer object. \<open>config\<close> is the shared
  configuration object, \<open>renderer\<close> the shared renderer.
\<close>

record FileWatcher =
  config :: WeeConfig
  renderer :: TemplateRenderer
  last_render_time :: real
  pending_render :: bool

definition FileWatcher_init :: "WeeConfig \<Rightarrow> TemplateRenderer \<Rightarrow> FileWatcher" where
  "FileWatcher_init cfg r =
     \<lparr>config = cfg, renderer = r, last_render_time = 0, pending_render = False\<rparr>"

text \<open>A watchdog event, as far as \<^verbatim>\<open>on_modified\<close> reads it.\<close>

record event =
  is_directory :: bool
  src_path :: string

text \<open>The directories \<^verbatim>\<open>start_watching\<close> schedules, each recursively.\<close>

definition watch_paths :: "world \<Rightarrow> WeeConfig \<Rightarrow> string set" where
  "watch_paths w cfg =
     (case template_file cfg of
        None \<Rightarrow> {}
      | Some f \<Rightarrow> if f \<noteq> [] then {os_path_dirname (abspath w f)} else {}) \<union>
     (case template_dir cfg of
        None \<Rightarrow> {}
      | Some d \<Rightarrow> if d \<noteq> [] then {abspath w d} else {}) \<union>
     (case context_file cfg of
        None \<Rightarrow> {}
      | Some c \<Rightarrow> if c \<noteq> [] then {os_path_dirname (abspath w c)} else {})"

text \<open>
  The exception handler around \<^verbatim>\<open>render_and_generate_pdf\<close> in \<^verbatim>\<open>_trigger_render\<close>
  (lines 228 to 232); \<open>es\<close> are the effects of the call so far.
\<close>

definition render_on_change :: "world \<Rightarrow> FileWatcher \<Rightarrow> effect list \<Rightarrow> FileWatcher \<times> effect list" where
  "render_on_change w fw es =
     (let (res, r1, e) =
            render_and_generate_pdf w (config fw) (renderer fw) (auto_open (config fw))
      in (fw\<lparr>renderer := r1\<rparr>,
          es @ e @
          (case res of
             Inl err \<Rightarrow> [Print_Error_during_render err]
           | Inr u \<Rightarrow> [])))"

text \<open>\<^verbatim>\<open>FileWatcher._trigger_render\<close>.\<close>

definition trigger_render :: "world \<Rightarrow> FileWatcher \<Rightarrow> string \<Rightarrow> FileWatcher \<times> effect list" where
  "trigger_render w fw changed_file =
     (let e0 = [Print_Change_detected (os_path_basename changed_file)]
      in (case context_file (config fw) of
            None \<Rightarrow> render_on_change w fw e0
          | Some cf \<Rightarrow>
              if cf \<noteq> [] \<and> changed_file = abspath w cf then
                (case open_json_load w cf of
                   Some j \<Rightarrow>
                     render_on_change w (fw\<lparr>config := (config fw)\<lparr>context_data := j\<rparr>\<rparr>)
                       (e0 @ [Print_Context_reloaded])
                 | None \<Rightarrow> (fw, e0 @ [Print_Error_reloading_context]))
              else render_on_change w fw e0))"

text \<open>
  The filter of \<^verbatim>\<open>on_modified\<close> (lines 188 to 200): the value of
  \<^verbatim>\<open>should_render\<close> for the path of a file event.
\<close>

definition should_render :: "world \<Rightarrow> WeeConfig \<Rightarrow> string \<Rightarrow> bool" where
  "should_render w cfg file_path =
     (if (case template_file cfg of
            None \<Rightarrow> False
          | Some f \<Rightarrow> f \<noteq> [] \<and> file_path = abspath w f) then True
      else if (case context_file cfg of
                 None \<Rightarrow> False
               | Some c \<Rightarrow> c \<noteq> [] \<and> file_path = abspath w c) then True
      else (case template_dir cfg of
              None \<Rightarrow> False
            | Some d \<Rightarrow> d \<noteq> [] \<and> prefix (abspath w d) file_path))"

text \<open>
  \<^verbatim>\<open>FileWatcher.on_modified\<close>. \<open>current_time\<close> is the value of
  \<^verbatim>\<open>time.time() * 1000\<close> that the call reads at line 206.
\<close>

definition on_modified :: "world \<Rightarrow> real \<Rightarrow> FileWatcher \<Rightarrow> event \<Rightarrow> FileWatcher \<times> effect list" where
  "on_modified w current_time fw ev =
     (if is_directory ev then (fw, [])
      else
        (let file_path = src_path ev
         in if \<not> should_render w (config fw) file_path then (fw, [])
            else if current_time - last_render_time fw < real_of_int (debounce_ms (config fw))
            then (fw\<lparr>pending_render := True\<rparr>, [])
            else trigger_render w (fw\<lparr>last_render_time := current_time\<rparr>) file_path))"

text \<open>
  The observer calls \<^verbatim>\<open>on_modified\<close> for one event after the other; each delivery
  comes with the environment and the clock reading of its moment.
\<close>

fun run_events :: "FileWatcher \<Rightarrow> (world \<times> real \<times> event) list \<Rightarrow> FileWatcher \<times> effect list" where
  "run_events fw [] = (fw, [])"
| "run_events fw ((w, t, ev) # rest) =
     (let (fw1, e1) = on_modified w t fw ev;
          (fw2, e2) = run_events fw1 rest
      in (fw2, e1 @ e2))"

text \<open>A render is dispatched when \<^verbatim>\<open>_trigger_render\<close> is entered: its first line prints.\<close>

fun is_dispatch :: "effect \<Rightarrow> bool" where
  "is_dispatch (Print_Change_detected name) = True"
| "is_dispatch e = False"

definition dispatches :: "effect list \<Rightarrow> nat" where
  "dispatches es = length (filter is_dispatch es)"

subsection \<open>The entry point\<close>

text \<open>
  \<^verbatim>\<open>main\<close> from line 375 on, for a configuration already built from the arguments:
  the initial context, the renderer, the initial render (whose exception ends the
  process) and, in watch mode, the watcher.
\<close>

definition main_configured ::
  "world \<Rightarrow> WeeConfig \<Rightarrow> (error + FileWatcher option) \<times> effect list" where
  "main_configured w config0 =
     (let (ctx, e1) = load_context w config0;
          cfg = config0\<lparr>context_data := ctx\<rparr>;
          (res, r1, e2) = render_and_generate_pdf w cfg TemplateRenderer_init (auto_open cfg)
      in (case res of
            Inl err \<Rightarrow> (Inl err, e1 @ e2)
          | Inr u \<Rightarrow>
              if watch_mode cfg then (Inr (Some (FileWatcher_init cfg r1)), e1 @ e2)
              else (Inr None, e1 @ e2)))"

subsection \<open>What the specification calls fresh\<close>


subsection \<open>What the specification calls relevant, and a burst\<close>

text \<open>
  The specification's relevance of a file event, in its own words: the path is the
  template file, or the context file, or lies inside the template directory (it continues
  the directory's path after a separator).
\<close>

definition spec_nested_under :: "string \<Rightarrow> string \<Rightarrow> bool" where
  "spec_nested_under dir p =
     (let d = (if dir \<noteq> [] \<and> last dir = CHR ''/'' then dir else dir @ ''/'')
      in prefix d p \<and> length d < length p)"

definition spec_relevant :: "world \<Rightarrow> WeeConfig \<Rightarrow> string \<Rightarrow> bool" where
  "spec_relevant w cfg p =
     ((case template_file cfg of None \<Rightarrow> False | Some f \<Rightarrow> f \<noteq> [] \<and> p = abspath w f) \<or>
      (case context_file cfg of None \<Rightarrow> False | Some c \<Rightarrow> c \<noteq> [] \<and> p = abspath w c) \<or>
      (case template_dir cfg of
         None \<Rightarrow> False
       | Some d \<Rightarrow> d \<noteq> [] \<and> spec_nested_under (abspath w d) p))"

text \<open>An event that passes both guards of \<^verbatim>\<open>on_modified\<close> (lines 183 and 202).\<close>

definition relevant_file_event :: "world \<Rightarrow> WeeConfig \<Rightarrow> event \<Rightarrow> bool" where
  "relevant_file_event w cfg ev = (\<not> is_directory ev \<and> should_render w cfg (src_path ev))"

definition all_relevant :: "WeeConfig \<Rightarrow> (world \<times> real \<times> event) list \<Rightarrow> bool" where
  "all_relevant cfg ds = list_all (\<lambda>(w, t, ev). relevant_file_event w cfg ev) ds"


subsection \<open>A small project to run the program on\<close>

text \<open>
  A project directory \<^verbatim>\<open>/proj\<close> with the template \<^verbatim>\<open>main.html\<close>, the template
  directory \<^verbatim>\<open>tpl\<close> and the context file \<^verbatim>\<open>ctx.json\<close>; all paths are absolute and
  normalised, so \<^verbatim>\<open>os.path.abspath\<close> returns them as they are.
\<close>

text \<open>The template \<^verbatim>\<open><h1>{{ title }}</h1>\<close>.\<close>

definition title_template :: template where
  "title_template context =
     Inr (''<h1>'' @
          (case context of
             JObj kvs \<Rightarrow> (case map_of kvs ''title'' of Some (JStr s) \<Rightarrow> s | _ \<Rightarrow> [])
           | _ \<Rightarrow> []) @
          ''</h1>'')"

text \<open>The template \<^verbatim>\<open>{{ 1 / 0 }}\<close>: it loads, and rendering it raises.\<close>

definition failing_template :: template where
  "failing_template context = Inl TemplateError"

text \<open>The text \<^verbatim>\<open>{"title": "Hello"}\<close>.\<close>

definition hello_text :: string where
  "hello_text =
     ''{'' @ [CHR 0x22] @ ''title'' @ [CHR 0x22] @ '': '' @ [CHR 0x22] @ ''Hello'' @ [CHR 0x22] @ ''}''"

definition hello_context :: json where
  "hello_context = JObj [(''title'', JStr ''Hello'')]"

definition demo_world :: world where
  "demo_world =
     \<lparr>abspath = (\<lambda>p. p),
      path_exists = (\<lambda>p. p = ''/proj/main.html'' \<or> p = ''/proj/ctx.json''),
      getmtime = (\<lambda>p. if p = ''/proj/main.html'' then Some 5 else None),
      read_text =
        (\<lambda>p. if p = ''/proj/ctx.json'' then Some hello_text
             else if p = ''/proj/main.html'' then Some ''<h1>{{ title }}</h1>''
             else None),
      json_loads = (\<lambda>txt. if txt = hello_text then Some hello_context else None),
      isfile = (\<lambda>p. p = ''/proj/main.html'' \<or> p = ''/proj/ctx.json''),
      compile_template =
        (\<lambda>source. if source = ''<h1>{{ title }}</h1>'' then Some title_template
                  else if source = ''{{ 1 / 0 }}'' then Some failing_template
                  else None),
      can_write = (\<lambda>p. True),
      weasyprint = (\<lambda>html. Some (''%PDF-'' @ html)),
      popen_ok = True,
      today = ''2026-01-01''\<rparr>"

text \<open>The same project after the context file was saved half written.\<close>

definition broken_context_world :: world where
  "broken_context_world =
     demo_world\<lparr>read_text := (read_text demo_world)(''/proj/ctx.json'' := Some ''{'')\<rparr>"

text \<open>The same project with the context file deleted.\<close>

definition missing_context_world :: world where
  "missing_context_world =
     demo_world\<lparr>path_exists := (\<lambda>p. p = ''/proj/main.html''),
                 isfile := (\<lambda>p. p = ''/proj/main.html''),
                 read_text := (read_text demo_world)(''/proj/ctx.json'' := None)\<rparr>"



definition demo_config :: WeeConfig where
  "demo_config =
     WeeConfig_init\<lparr>template_file := Some ''/proj/main.html'',
                     template_dir := Some ''/proj/tpl'',
                     context_file := Some ''/proj/ctx.json'',
                     watch_mode := True\<rparr>"

text \<open>
  A renderer that has rendered the working template at modification time 5: the engine
  and the program have each cached the handle.
\<close>

definition warm_renderer :: TemplateRenderer where
  "warm_renderer =
     \<lparr>env_cache =
        Some \<lparr>searchpath = [''/proj/tpl'', ''/proj''],
              cache = [''main.html'' \<mapsto> (title_template, ''/proj/main.html'', 5)]\<rparr>,
      template_cache = [''/proj/main.html'' \<mapsto> (title_template, 5)]\<rparr>"


definition demo_watcher :: FileWatcher where
  "demo_watcher = FileWatcher_init demo_config TemplateRenderer_init"

text \<open>
  The watcher that \<open>main_configured\<close> builds on the project: the context of the file is
  loaded, the template has been rendered once and is cached.
\<close>

definition started_watcher :: "WeeConfig \<Rightarrow> FileWatcher" where
  "started_watcher cfg =
     FileWatcher_init (cfg\<lparr>context_data := hello_context\<rparr>) warm_renderer"

text \<open>The project run with \<^verbatim>\<open>--debounce 2000000000000\<close> and \<^verbatim>\<open>--no-open\<close>.\<close>

definition slow_config :: WeeConfig where
  "slow_config = demo_config\<lparr>auto_open := False, debounce_ms := 2000000000000\<rparr>"

definition file_event :: "string \<Rightarrow> event" where
  "file_event p = \<lparr>is_directory = False, src_path = p\<rparr>"

section \<open>Properties\<close>

subsection \<open>The render cache\<close>













subsection \<open>The context loader\<close>

text \<open>
  C6. With a context file configured: when it exists, opens and parses, \<open>load_context\<close>
  returns its contents and prints nothing; when it does not exist, the default context is
  returned; when it exists and opening or parsing it raises, the warning is printed and
  the default context is returned. \<open>load_context\<close> raises in no case. The default
  context has a title, the date of the day, an author, a description and a list of one
  sample item.
\<close>

theorem load_context_cases:
  "(context_file cfg = Some cf \<and> cf \<noteq> [] \<and> path_exists w cf \<and> open_json_load w cf = Some j
      \<longrightarrow> load_context w cfg = (j, [])) \<and>
   (context_file cfg = Some cf \<and> \<not> path_exists w cf
      \<longrightarrow> load_context w cfg = (default_context w, [])) \<and>
   (context_file cfg = Some cf \<and> cf \<noteq> [] \<and> path_exists w cf \<and> open_json_load w cf = None
      \<longrightarrow> load_context w cfg = (default_context w, [Print_Warning_context_file])) \<and>
   json_get (default_context w) ''title'' = Some (JStr ''Wee Document'') \<and>
   json_get (default_context w) ''date'' = Some (JStr (today w)) \<and>
   json_get (default_context w) ''author'' = Some (JStr ''Wee User'') \<and>
   json_get (default_context w) ''description'' = Some (JStr ''Document generated with Wee'') \<and>
   json_get (default_context w) ''items'' =
     Some (JArr [JObj [(''name'', JStr ''Sample Item''), (''quantity'', JInt 1),
                       (''price'', JFloat 9.99)]])"
  by (simp add: load_context_def default_context_def)

text \<open>
  The three cases on the project: the context file as written, the file deleted, and the
  file saved half written.
\<close>

theorem load_context_cases_witness:
  "load_context demo_world demo_config = (hello_context, []) \<and>
   load_context missing_context_world demo_config = (default_context missing_context_world, []) \<and>
   load_context broken_context_world demo_config =
     (default_context broken_context_world, [Print_Warning_context_file]) \<and>
   json_get (default_context broken_context_world) ''date'' = Some (JStr ''2026-01-01'')"
proof -
  have cf: "context_file demo_config = Some ''/proj/ctx.json''"
    by (simp add: demo_config_def)
  have ok: "path_exists demo_world ''/proj/ctx.json'' \<and>
      open_json_load demo_world ''/proj/ctx.json'' = Some hello_context"
    by (simp add: demo_world_def open_json_load_def)
  have missing: "\<not> path_exists missing_context_world ''/proj/ctx.json''"
    by (simp add: missing_context_world_def demo_world_def)
  have broken: "path_exists broken_context_world ''/proj/ctx.json'' \<and>
      open_json_load broken_context_world ''/proj/ctx.json'' = None"
    by (simp add: broken_context_world_def demo_world_def open_json_load_def hello_text_def)
  have day: "today broken_context_world = ''2026-01-01''"
    by (simp add: broken_context_world_def demo_world_def)
  show ?thesis
    using load_context_cases [of demo_config "''/proj/ctx.json''" demo_world hello_context]
      load_context_cases [of demo_config "''/proj/ctx.json''" missing_context_world hello_context]
      load_context_cases [of demo_config "''/proj/ctx.json''" broken_context_world hello_context]
      cf ok missing broken day
    by simp
qed

subsection \<open>The render pipeline\<close>

lemma load_context_ignores_context_data:
  "load_context w (cfg\<lparr>context_data := d\<rparr>) = load_context w cfg"
  by (simp add: load_context_def cong: option.case_cong)

lemma get_environment_ignores_context_data:
  "get_environment w (cfg\<lparr>context_data := d\<rparr>) r = get_environment w cfg r"
  by (simp add: get_environment_def Let_def cong: option.case_cong)

lemma render_template_ignores_context_data:
  "render_template w (cfg\<lparr>context_data := d\<rparr>) r p ctx = render_template w cfg r p ctx"
  by (simp add: render_template_def get_environment_ignores_context_data)

lemma render_and_generate_pdf_ignores_context_data:
  "render_and_generate_pdf w (cfg\<lparr>context_data := d\<rparr>) r a = render_and_generate_pdf w cfg r a"
  by (simp add: render_and_generate_pdf_def load_context_ignores_context_data
      render_template_ignores_context_data Let_def
      cong: prod.case_cong sum.case_cong if_cong)

text \<open>
  C8. \<open>render_and_generate_pdf\<close> does not read \<open>context_data\<close>: for any two values of
  it the call returns or raises the same, leaves the same renderer and has the same
  effects, the markup and the PDF written among them. So the render that
  \<open>trigger_render\<close> runs after storing a reloaded context has the effects and leaves
  the renderer it would have without the store.
\<close>

theorem render_independent_of_context_data:
  "render_and_generate_pdf w (cfg\<lparr>context_data := d1\<rparr>) r a =
     render_and_generate_pdf w (cfg\<lparr>context_data := d2\<rparr>) r a \<and>
   snd (render_on_change w (fw\<lparr>config := (config fw)\<lparr>context_data := j\<rparr>\<rparr>) es) =
     snd (render_on_change w fw es) \<and>
   renderer (fst (render_on_change w (fw\<lparr>config := (config fw)\<lparr>context_data := j\<rparr>\<rparr>) es)) =
     renderer (fst (render_on_change w fw es))"
  by (simp add: render_and_generate_pdf_ignores_context_data render_on_change_def
      split: prod.splits)

text \<open>
  On the project, whatever \<open>context_data\<close> holds, the markup written is the template
  rendered from the context file on disk.
\<close>

theorem render_independent_of_context_data_witness:
  "snd (snd (render_and_generate_pdf demo_world (demo_config\<lparr>context_data := JNull\<rparr>)
     TemplateRenderer_init False)) =
   snd (snd (render_and_generate_pdf demo_world
     (demo_config\<lparr>context_data := JObj [(''title'', JStr ''Other'')]\<rparr>)
     TemplateRenderer_init False)) \<and>
   snd (snd (render_and_generate_pdf demo_world
     (demo_config\<lparr>context_data := JObj [(''title'', JStr ''Other'')]\<rparr>)
     TemplateRenderer_init False)) =
     [Print_Rendering (Some ''/proj/main.html''),
      Read_Template_File ''/proj/main.html'',
      Print_Template_rendered,
      Write_File ''output.html'' ''<h1>Hello</h1>'',
      Print_HTML_saved ''output.html'',
      Write_File ''output.pdf'' ''%PDF-<h1>Hello</h1>'',
      Print_PDF_generated ''output.pdf'']"
proof -
  have run: "snd (snd (render_and_generate_pdf demo_world
      (demo_config\<lparr>context_data := JObj [(''title'', JStr ''Other'')]\<rparr>)
      TemplateRenderer_init False)) =
      [Print_Rendering (Some ''/proj/main.html''),
       Read_Template_File ''/proj/main.html'',
       Print_Template_rendered,
       Write_File ''output.html'' ''<h1>Hello</h1>'',
       Print_HTML_saved ''output.html'',
       Write_File ''output.pdf'' ''%PDF-<h1>Hello</h1>'',
       Print_PDF_generated ''output.pdf'']"
    by (simp add: render_and_generate_pdf_def load_context_def open_json_load_def
        render_template_def load_and_render_def env_get_template_def env_cached_def
        loader_get_source_def os_path_join_def get_environment_def html_to_pdf_def
        demo_world_def demo_config_def WeeConfig_init_def TemplateRenderer_init_def
        title_template_def hello_context_def os_path_dirname_def os_path_basename_def Let_def)
  show ?thesis
    using render_independent_of_context_data [where w = demo_world and cfg = demo_config
        and ?d1.0 = JNull and r = TemplateRenderer_init and a = False
        and ?d2.0 = "JObj [(''title'', JStr ''Other'')]"] run
    by simp
qed

text \<open>
  C7 asks for the markup at the output path with its extension replaced, a path other
  than the PDF's. Line 290 replaces the text \<^verbatim>\<open>.pdf\<close> wherever it stands in the output
  path instead. For the output path \<^verbatim>\<open>report\<close> nothing is replaced: the markup is
  written to \<^verbatim>\<open>report\<close> and the PDF is then written over it. For
  \<^verbatim>\<open>a.pdf.d/out.pdf\<close> the directory is renamed too, so the markup does not go
  beside the PDF.
\<close>

theorem markup_path_without_pdf_extension:
  "str_replace ''.pdf'' ''.html'' ''report'' = ''report'' \<and>
   str_replace ''.pdf'' ''.html'' ''a.pdf.d/out.pdf'' = ''a.html.d/out.html'' \<and>
   snd (snd (render_and_generate_pdf demo_world (demo_config\<lparr>output_pdf := ''report''\<rparr>)
     TemplateRenderer_init False)) =
     [Print_Rendering (Some ''/proj/main.html''),
      Read_Template_File ''/proj/main.html'',
      Print_Template_rendered,
      Write_File ''report'' ''<h1>Hello</h1>'',
      Print_HTML_saved ''report'',
      Write_File ''report'' ''%PDF-<h1>Hello</h1>'',
      Print_PDF_generated ''report'']"
  by (simp add: render_and_generate_pdf_def load_context_def open_json_load_def
      render_template_def load_and_render_def env_get_template_def env_cached_def
        loader_get_source_def os_path_join_def get_environment_def html_to_pdf_def
      demo_world_def demo_config_def WeeConfig_init_def TemplateRenderer_init_def
      title_template_def hello_context_def os_path_dirname_def os_path_basename_def Let_def)

subsection \<open>What a render does and does not touch\<close>

lemma should_render_ignores_context_data:
  "should_render w (cfg\<lparr>context_data := j\<rparr>) p = should_render w cfg p"
  by (simp add: should_render_def cong: option.case_cong if_cong)

lemma load_context_no_dispatch: "filter is_dispatch (snd (load_context w cfg)) = []"
  by (simp add: load_context_def split: option.splits)

lemma render_template_no_dispatch:
  "filter is_dispatch (snd (snd (render_template w cfg r p ctx))) = []"
  by (simp add: render_template_def load_and_render_def env_get_template_def env_cached_def
        loader_get_source_def os_path_join_def Let_def
      split: prod.splits option.splits sum.splits)

lemma html_to_pdf_no_dispatch: "filter is_dispatch (snd (html_to_pdf w html out)) = []"
  by (simp add: html_to_pdf_def split: option.splits)

lemma open_pdf_no_dispatch: "filter is_dispatch (open_pdf w out) = []"
  by (simp add: open_pdf_def)

lemma render_and_generate_pdf_no_dispatch:
  "filter is_dispatch (snd (snd (render_and_generate_pdf w cfg r a))) = []"
proof -
  obtain ctx e1 where l: "load_context w cfg = (ctx, e1)"
    by (cases "load_context w cfg")
  obtain res r1 e2 where t: "render_template w cfg r (template_file cfg) ctx = (res, r1, e2)"
    by (cases "render_template w cfg r (template_file cfg) ctx")
  have e1: "filter is_dispatch e1 = []"
    using load_context_no_dispatch [of w cfg] l by simp
  have e2: "filter is_dispatch e2 = []"
    using render_template_no_dispatch [of w cfg r "template_file cfg" ctx] t by simp
  show ?thesis
  proof (cases res)
    case (Inl err)
    with l t e1 e2 show ?thesis
      by (simp add: render_and_generate_pdf_def)
  next
    case (Inr html)
    obtain res_pdf e5 where h: "html_to_pdf w html (output_pdf cfg) = (res_pdf, e5)"
      by (cases "html_to_pdf w html (output_pdf cfg)")
    have e5: "filter is_dispatch e5 = []"
      using html_to_pdf_no_dispatch [of w html "output_pdf cfg"] h by simp
    from Inr l t h e1 e2 e5 show ?thesis
      by (simp add: render_and_generate_pdf_def Let_def open_pdf_no_dispatch split: sum.splits)
  qed
qed

lemma render_on_change_watcher:
  "config (fst (render_on_change w fw es)) = config fw"
  "last_render_time (fst (render_on_change w fw es)) = last_render_time fw"
  "pending_render (fst (render_on_change w fw es)) = pending_render fw"
  by (simp_all add: render_on_change_def split: prod.splits)

lemma render_on_change_dispatches:
  "filter is_dispatch (snd (render_on_change w fw es)) = filter is_dispatch es"
proof -
  obtain res r1 e where
    r: "render_and_generate_pdf w (config fw) (renderer fw) (auto_open (config fw)) = (res, r1, e)"
    by (cases "render_and_generate_pdf w (config fw) (renderer fw) (auto_open (config fw))")
  then have "filter is_dispatch e = []"
    using render_and_generate_pdf_no_dispatch
      [of w "config fw" "renderer fw" "auto_open (config fw)"] by simp
  with r show ?thesis
    by (simp add: render_on_change_def split: sum.splits)
qed

lemma trigger_render_watcher:
  "last_render_time (fst (trigger_render w fw p)) = last_render_time fw"
  "pending_render (fst (trigger_render w fw p)) = pending_render fw"
  "config (fst (trigger_render w fw p)) =
     (config fw)\<lparr>context_data := context_data (config (fst (trigger_render w fw p)))\<rparr>"
  by (simp_all add: trigger_render_def Let_def render_on_change_watcher split: option.splits)

lemma trigger_render_dispatches: "dispatches (snd (trigger_render w fw p)) = 1"
  by (simp add: trigger_render_def Let_def dispatches_def render_on_change_dispatches
      split: option.splits)

lemma on_modified_ignored:
  "\<not> relevant_file_event w (config fw) ev \<Longrightarrow> on_modified w t fw ev = (fw, [])"
  by (auto simp add: on_modified_def relevant_file_event_def Let_def)

lemma on_modified_in_window:
  "relevant_file_event w (config fw) ev \<Longrightarrow>
   t - last_render_time fw < real_of_int (debounce_ms (config fw)) \<Longrightarrow>
   on_modified w t fw ev = (fw\<lparr>pending_render := True\<rparr>, [])"
  by (simp add: on_modified_def relevant_file_event_def Let_def)

lemma on_modified_dispatch:
  "relevant_file_event w (config fw) ev \<Longrightarrow>
   real_of_int (debounce_ms (config fw)) \<le> t - last_render_time fw \<Longrightarrow>
   on_modified w t fw ev = trigger_render w (fw\<lparr>last_render_time := t\<rparr>) (src_path ev)"
  by (simp add: on_modified_def relevant_file_event_def Let_def)

lemma relevant_file_event_ignores_context_data:
  "relevant_file_event w (cfg\<lparr>context_data := j\<rparr>) ev = relevant_file_event w cfg ev"
  by (simp add: relevant_file_event_def should_render_ignores_context_data)

lemma all_relevant_ignores_context_data:
  "all_relevant (cfg\<lparr>context_data := j\<rparr>) ds = all_relevant cfg ds"
  by (simp add: all_relevant_def relevant_file_event_ignores_context_data)


lemma demo_watcher_fields:
  "config demo_watcher = demo_config"
  "last_render_time demo_watcher = 0"
  "pending_render demo_watcher = False"
  "debounce_ms demo_config = 100"
  by (simp_all add: demo_watcher_def FileWatcher_init_def demo_config_def WeeConfig_init_def)

lemma demo_template_event_relevant:
  "relevant_file_event demo_world demo_config (file_event ''/proj/main.html'')"
  by (simp add: relevant_file_event_def should_render_def file_event_def demo_world_def
      demo_config_def WeeConfig_init_def)

subsection \<open>Debounce\<close>


lemma dispatched_watcher:
  assumes "relevant_file_event w (config fw) ev"
    and "real_of_int (debounce_ms (config fw)) \<le> t - last_render_time fw"
  shows "last_render_time (fst (on_modified w t fw ev)) = t"
    and "pending_render (fst (on_modified w t fw ev)) = pending_render fw"
    and "debounce_ms (config (fst (on_modified w t fw ev))) = debounce_ms (config fw)"
    and "all_relevant (config (fst (on_modified w t fw ev))) ds = all_relevant (config fw) ds"
    and "relevant_file_event w' (config (fst (on_modified w t fw ev))) ev' =
           relevant_file_event w' (config fw) ev'"
    and "dispatches (snd (on_modified w t fw ev)) = 1"
proof -
  let ?fw = "fw\<lparr>last_render_time := t\<rparr>"
  have eq: "on_modified w t fw ev = trigger_render w ?fw (src_path ev)"
    using on_modified_dispatch [OF assms] .
  have cfg: "config (fst (trigger_render w ?fw (src_path ev))) =
      (config fw)\<lparr>context_data := context_data (config (fst (trigger_render w ?fw (src_path ev))))\<rparr>"
    using trigger_render_watcher(3) [of w ?fw "src_path ev"] by simp
  show "last_render_time (fst (on_modified w t fw ev)) = t"
    by (simp add: eq trigger_render_watcher(1))
  show "pending_render (fst (on_modified w t fw ev)) = pending_render fw"
    by (simp add: eq trigger_render_watcher(2))
  show "debounce_ms (config (fst (on_modified w t fw ev))) = debounce_ms (config fw)"
    by (subst eq, subst cfg) simp
  show "all_relevant (config (fst (on_modified w t fw ev))) ds = all_relevant (config fw) ds"
    by (subst eq, subst cfg) (rule all_relevant_ignores_context_data)
  show "relevant_file_event w' (config (fst (on_modified w t fw ev))) ev' =
      relevant_file_event w' (config fw) ev'"
    by (subst eq, subst cfg) (rule relevant_file_event_ignores_context_data)
  show "dispatches (snd (on_modified w t fw ev)) = 1"
    by (simp add: eq trigger_render_dispatches)
qed








subsection \<open>The pending flag\<close>

lemma on_modified_pending_render:
  "pending_render (fst (on_modified w t fw ev)) =
     (pending_render fw \<or>
      (relevant_file_event w (config fw) ev \<and>
       t - last_render_time fw < real_of_int (debounce_ms (config fw))))"
proof (cases "relevant_file_event w (config fw) ev")
  case False
  then show ?thesis
    by (simp add: on_modified_ignored)
next
  case True
  show ?thesis
  proof (cases "t - last_render_time fw < real_of_int (debounce_ms (config fw))")
    case True
    with \<open>relevant_file_event w (config fw) ev\<close> show ?thesis
      by (simp add: on_modified_in_window)
  next
    case False
    with \<open>relevant_file_event w (config fw) ev\<close> show ?thesis
      by (simp add: dispatched_watcher(2))
  qed
qed

text \<open>
  C5, as the code has it. \<open>pending_render\<close> is \<open>False\<close> in a new watcher. After
  \<open>on_modified\<close> it is set exactly when it was set before or the event is a relevant
  file event inside the debounce window; so a dispatch, which happens outside the window,
  leaves the flag as it was, and nothing ever clears it. \<open>trigger_render\<close> and the
  render it runs do not change it: only \<open>on_modified\<close> does.
\<close>

theorem pending_render_lifecycle:
  "pending_render (FileWatcher_init cfg r) = False \<and>
   pending_render (fst (on_modified w t fw ev)) =
     (pending_render fw \<or>
      (relevant_file_event w (config fw) ev \<and>
       t - last_render_time fw < real_of_int (debounce_ms (config fw)))) \<and>
   pending_render (fst (trigger_render w fw p)) = pending_render fw \<and>
   pending_render (fst (render_on_change w fw es)) = pending_render fw"
  by (simp add: FileWatcher_init_def on_modified_pending_render trigger_render_watcher(2)
      render_on_change_watcher(3))

text \<open>
  The flag on the project: not set after the first event, which is dispatched, and set
  after a second event 50 ms later.
\<close>

theorem pending_render_lifecycle_witness:
  "pending_render (fst (on_modified demo_world 1700000000000 demo_watcher
     (file_event ''/proj/main.html''))) = False \<and>
   pending_render (fst (on_modified demo_world 1700000000050
     (demo_watcher\<lparr>last_render_time := 1700000000000\<rparr>) (file_event ''/proj/main.html''))) = True"
  using pending_render_lifecycle [where w = demo_world and t = 1700000000000
      and fw = demo_watcher and ev = "file_event ''/proj/main.html''"]
    pending_render_lifecycle [where w = demo_world and t = 1700000000050
      and fw = "demo_watcher\<lparr>last_render_time := 1700000000000\<rparr>"
      and ev = "file_event ''/proj/main.html''"]
    demo_watcher_fields demo_template_event_relevant
  by simp

text \<open>
  C5 as the specification words it fails: the flag is not cleared once a render is
  dispatched. On the project the template is saved three times, at 0 ms, 50 ms and
  200 ms. The first event is dispatched, the second falls in the window and sets the
  flag, the third is dispatched, and the flag is still set after it.
\<close>

theorem pending_render_never_cleared:
  "pending_render (fst (run_events demo_watcher
     [(demo_world, 1700000000000, file_event ''/proj/main.html''),
      (demo_world, 1700000000050, file_event ''/proj/main.html'')])) = True \<and>
   dispatches (snd (on_modified demo_world 1700000000200
     (fst (run_events demo_watcher
       [(demo_world, 1700000000000, file_event ''/proj/main.html''),
        (demo_world, 1700000000050, file_event ''/proj/main.html'')]))
     (file_event ''/proj/main.html''))) = 1 \<and>
   pending_render (fst (on_modified demo_world 1700000000200
     (fst (run_events demo_watcher
       [(demo_world, 1700000000000, file_event ''/proj/main.html''),
        (demo_world, 1700000000050, file_event ''/proj/main.html'')]))
     (file_event ''/proj/main.html''))) = True"
proof -
  let ?ev = "file_event ''/proj/main.html''"
  let ?fw1 = "fst (on_modified demo_world 1700000000000 demo_watcher ?ev)"
  let ?fw2 = "fst (on_modified demo_world 1700000000050 ?fw1 ?ev)"
  have rel0: "relevant_file_event demo_world (config demo_watcher) ?ev"
    by (simp add: demo_watcher_fields demo_template_event_relevant)
  have idle0: "real_of_int (debounce_ms (config demo_watcher))
      \<le> 1700000000000 - last_render_time demo_watcher"
    by (simp add: demo_watcher_fields)
  note first = dispatched_watcher [OF rel0 idle0]
  have rel1: "relevant_file_event demo_world (config ?fw1) ?ev"
    using rel0 by (simp add: first(5))
  have win1: "1700000000050 - last_render_time ?fw1 < real_of_int (debounce_ms (config ?fw1))"
    by (simp add: first(1) first(3) demo_watcher_fields)
  have second: "on_modified demo_world 1700000000050 ?fw1 ?ev = (?fw1\<lparr>pending_render := True\<rparr>, [])"
    by (rule on_modified_in_window [OF rel1 win1])
  have run: "fst (run_events demo_watcher
      [(demo_world, 1700000000000, ?ev), (demo_world, 1700000000050, ?ev)]) = ?fw2"
    by (simp add: case_prod_beta)
  have fw2: "?fw2 = ?fw1\<lparr>pending_render := True\<rparr>"
    by (simp add: second)
  have rel2: "relevant_file_event demo_world (config ?fw2) ?ev"
    using rel1 by (simp add: fw2)
  have idle2: "real_of_int (debounce_ms (config ?fw2)) \<le> 1700000000200 - last_render_time ?fw2"
    by (simp add: fw2 first(1) first(3) demo_watcher_fields)
  note third = dispatched_watcher [OF rel2 idle2]
  have set2: "pending_render ?fw2 = True"
    by (simp add: fw2)
  from third(2) third(6) set2 show ?thesis
    by (simp only: run)
qed

subsection \<open>Which events are relevant\<close>

text \<open>
  What holds of the filter: a path the specification calls relevant passes it, and an
  event that does not pass it (a directory event among them) changes nothing and has no
  effect.
\<close>

lemma spec_relevant_should_render:
  assumes "spec_relevant w cfg p"
  shows "should_render w cfg p"
proof -
  have "prefix d p" if "spec_nested_under d p" for d
    using that
    by (auto simp add: spec_nested_under_def Let_def split: if_splits dest: append_prefixD)
  with assms show ?thesis
    by (auto simp add: spec_relevant_def should_render_def split: option.splits)
qed

lemma irrelevant_event_dropped:
  "is_directory ev \<or> \<not> should_render w (config fw) (src_path ev) \<Longrightarrow>
   on_modified w t fw ev = (fw, [])"
  by (auto simp add: on_modified_def Let_def)

text \<open>
  C3 says that a file outside the template directory, other than the template and the
  context file, never triggers a render. Line 199 tests
  \<^verbatim>\<open>file_path.startswith(os.path.abspath(template_dir))\<close>, a comparison of text, so a
  path that merely begins with the directory's name passes too. On the project,
  \<^verbatim>\<open>/proj\<close> is watched recursively (it holds the template), the template directory is
  \<^verbatim>\<open>/proj/tpl\<close>, and saving \<^verbatim>\<open>/proj/tpl_backup/a.html\<close>, which is not in it,
  is dispatched and renders.
\<close>

theorem sibling_of_template_dir_triggers_render:
  "''/proj'' \<in> watch_paths demo_world demo_config \<and>
   spec_nested_under ''/proj'' ''/proj/tpl_backup/a.html'' \<and>
   \<not> spec_nested_under ''/proj/tpl'' ''/proj/tpl_backup/a.html'' \<and>
   \<not> spec_relevant demo_world demo_config ''/proj/tpl_backup/a.html'' \<and>
   should_render demo_world demo_config ''/proj/tpl_backup/a.html'' \<and>
   snd (on_modified demo_world 1700000000000 demo_watcher
     (file_event ''/proj/tpl_backup/a.html'')) =
     [Print_Change_detected ''a.html'',
      Print_Rendering (Some ''/proj/main.html''),
      Read_Template_File ''/proj/main.html'',
      Print_Template_rendered,
      Write_File ''output.html'' ''<h1>Hello</h1>'',
      Print_HTML_saved ''output.html'',
      Write_File ''output.pdf'' ''%PDF-<h1>Hello</h1>'',
      Print_PDF_generated ''output.pdf'',
      Popen_Viewer ''output.pdf'',
      Print_Opened_PDF]"
proof -
  have watched: "''/proj'' \<in> watch_paths demo_world demo_config"
    by (simp add: watch_paths_def demo_world_def demo_config_def WeeConfig_init_def
        os_path_dirname_def)
  have nested: "spec_nested_under ''/proj'' ''/proj/tpl_backup/a.html''"
    "\<not> spec_nested_under ''/proj/tpl'' ''/proj/tpl_backup/a.html''"
    by (simp_all add: spec_nested_under_def)
  have spec: "\<not> spec_relevant demo_world demo_config ''/proj/tpl_backup/a.html''"
    by (simp add: spec_relevant_def spec_nested_under_def demo_world_def demo_config_def
        WeeConfig_init_def)
  have code: "should_render demo_world demo_config ''/proj/tpl_backup/a.html''"
    by (simp add: should_render_def demo_world_def demo_config_def WeeConfig_init_def)
  have run: "snd (on_modified demo_world 1700000000000 demo_watcher
      (file_event ''/proj/tpl_backup/a.html'')) =
      [Print_Change_detected ''a.html'',
       Print_Rendering (Some ''/proj/main.html''),
       Read_Template_File ''/proj/main.html'',
       Print_Template_rendered,
       Write_File ''output.html'' ''<h1>Hello</h1>'',
       Print_HTML_saved ''output.html'',
       Write_File ''output.pdf'' ''%PDF-<h1>Hello</h1>'',
       Print_PDF_generated ''output.pdf'',
       Popen_Viewer ''output.pdf'',
       Print_Opened_PDF]"
    by (simp add: on_modified_def should_render_def trigger_render_def render_on_change_def
        render_and_generate_pdf_def load_context_def open_json_load_def render_template_def
        load_and_render_def env_get_template_def env_cached_def
        loader_get_source_def os_path_join_def get_environment_def html_to_pdf_def open_pdf_def
        demo_watcher_def FileWatcher_init_def file_event_def
        demo_world_def demo_config_def WeeConfig_init_def TemplateRenderer_init_def
        title_template_def hello_context_def os_path_dirname_def os_path_basename_def Let_def)
  from watched nested spec code run show ?thesis by simp
qed

subsection \<open>A dispatch for the context file\<close>

lemma context_event_relevant:
  assumes "context_file (config fw) = Some cf" and "cf \<noteq> []"
    and "\<not> is_directory ev" and "src_path ev = abspath w cf"
  shows "relevant_file_event w (config fw) ev"
  using assms by (simp add: relevant_file_event_def should_render_def split: option.splits)

lemma trigger_render_reload_failed:
  assumes "context_file (config fw) = Some cf" and "cf \<noteq> []"
    and "open_json_load w cf = None"
  shows "trigger_render w fw (abspath w cf) =
           (fw, [Print_Change_detected (os_path_basename (abspath w cf)),
                 Print_Error_reloading_context])"
  using assms by (simp add: trigger_render_def)

lemma trigger_render_reloaded:
  assumes "context_file (config fw) = Some cf" and "cf \<noteq> []"
    and "open_json_load w cf = Some j"
  shows "trigger_render w fw (abspath w cf) =
           render_on_change w (fw\<lparr>config := (config fw)\<lparr>context_data := j\<rparr>\<rparr>)
             [Print_Change_detected (os_path_basename (abspath w cf)), Print_Context_reloaded]"
  using assms by (simp add: trigger_render_def)

lemma on_modified_reload_failed:
  assumes "context_file (config fw) = Some cf" and "cf \<noteq> []"
    and "\<not> is_directory ev" and "src_path ev = abspath w cf"
    and "open_json_load w cf = None"
    and "real_of_int (debounce_ms (config fw)) \<le> t - last_render_time fw"
  shows "on_modified w t fw ev =
           (fw\<lparr>last_render_time := t\<rparr>,
            [Print_Change_detected (os_path_basename (abspath w cf)),
             Print_Error_reloading_context])"
proof -
  have "relevant_file_event w (config fw) ev"
    using assms(1-4) by (rule context_event_relevant)
  then have "on_modified w t fw ev = trigger_render w (fw\<lparr>last_render_time := t\<rparr>) (src_path ev)"
    using assms(6) by (rule on_modified_dispatch)
  also have "\<dots> = (fw\<lparr>last_render_time := t\<rparr>,
      [Print_Change_detected (os_path_basename (abspath w cf)), Print_Error_reloading_context])"
    using trigger_render_reload_failed [of "fw\<lparr>last_render_time := t\<rparr>" cf w] assms
    by simp
  finally show ?thesis .
qed

text \<open>
  C4. Let the context file be configured and let \<open>trigger_render\<close> be called for its
  path. When opening or parsing the file raises, the call prints the change and the error
  and returns: the watcher, with \<open>context_data\<close> and \<open>pending_render\<close>, is as before and
  nothing is rendered. When the file parses, its value is stored in \<open>context_data\<close>
  first and the render runs after that. At the level of \<open>on_modified\<close>, a dispatched
  context event whose reload fails changes \<open>last_render_time\<close> and nothing else.
\<close>

theorem context_reload_on_dispatch:
  assumes "context_file (config fw) = Some cf" and "cf \<noteq> []"
  shows "(open_json_load w cf = None \<longrightarrow>
            trigger_render w fw (abspath w cf) =
              (fw, [Print_Change_detected (os_path_basename (abspath w cf)),
                    Print_Error_reloading_context])) \<and>
         (open_json_load w cf = Some j \<longrightarrow>
            context_data (config (fst (trigger_render w fw (abspath w cf)))) = j \<and>
            snd (trigger_render w fw (abspath w cf)) =
              [Print_Change_detected (os_path_basename (abspath w cf)), Print_Context_reloaded] @
              snd (snd (render_and_generate_pdf w ((config fw)\<lparr>context_data := j\<rparr>)
                (renderer fw) (auto_open (config fw)))) @
              (case fst (render_and_generate_pdf w ((config fw)\<lparr>context_data := j\<rparr>)
                      (renderer fw) (auto_open (config fw))) of
                 Inl err \<Rightarrow> [Print_Error_during_render err]
               | Inr u \<Rightarrow> [])) \<and>
         (\<not> is_directory ev \<and> src_path ev = abspath w cf \<and> open_json_load w cf = None \<and>
          real_of_int (debounce_ms (config fw)) \<le> t - last_render_time fw \<longrightarrow>
            on_modified w t fw ev =
              (fw\<lparr>last_render_time := t\<rparr>,
               [Print_Change_detected (os_path_basename (abspath w cf)),
                Print_Error_reloading_context]))"
proof (intro conjI impI)
  assume "open_json_load w cf = None"
  with assms show "trigger_render w fw (abspath w cf) =
      (fw, [Print_Change_detected (os_path_basename (abspath w cf)),
            Print_Error_reloading_context])"
    by (rule trigger_render_reload_failed)
next
  assume ok: "open_json_load w cf = Some j"
  note eq = trigger_render_reloaded [OF assms ok]
  show "context_data (config (fst (trigger_render w fw (abspath w cf)))) = j"
    by (simp add: eq render_on_change_watcher(1))
  show "snd (trigger_render w fw (abspath w cf)) =
      [Print_Change_detected (os_path_basename (abspath w cf)), Print_Context_reloaded] @
      snd (snd (render_and_generate_pdf w ((config fw)\<lparr>context_data := j\<rparr>)
        (renderer fw) (auto_open (config fw)))) @
      (case fst (render_and_generate_pdf w ((config fw)\<lparr>context_data := j\<rparr>)
              (renderer fw) (auto_open (config fw))) of
         Inl err \<Rightarrow> [Print_Error_during_render err]
       | Inr u \<Rightarrow> [])"
    by (simp add: eq render_on_change_def case_prod_beta)
next
  assume "\<not> is_directory ev \<and> src_path ev = abspath w cf \<and> open_json_load w cf = None \<and>
    real_of_int (debounce_ms (config fw)) \<le> t - last_render_time fw"
  with assms show "on_modified w t fw ev =
      (fw\<lparr>last_render_time := t\<rparr>,
       [Print_Change_detected (os_path_basename (abspath w cf)),
        Print_Error_reloading_context])"
    by (simp add: on_modified_reload_failed)
qed

text \<open>
  On the project: the context file is saved half written while the watcher holds the
  context loaded at the start, and the context file is saved whole while the watcher
  holds an empty context.
\<close>

theorem context_reload_on_dispatch_witness:
  "trigger_render broken_context_world (started_watcher demo_config) ''/proj/ctx.json'' =
     (started_watcher demo_config,
      [Print_Change_detected ''ctx.json'', Print_Error_reloading_context]) \<and>
   context_data (config (started_watcher demo_config)) = hello_context \<and>
   context_data (config demo_watcher) = JObj [] \<and>
   context_data (config (fst (trigger_render demo_world demo_watcher ''/proj/ctx.json''))) =
     hello_context \<and>
   on_modified broken_context_world 1700000000000 (started_watcher demo_config)
     (file_event ''/proj/ctx.json'') =
     ((started_watcher demo_config)\<lparr>last_render_time := 1700000000000\<rparr>,
      [Print_Change_detected ''ctx.json'', Print_Error_reloading_context])"
proof -
  have cf: "context_file (config (started_watcher demo_config)) = Some ''/proj/ctx.json''"
    "context_file (config demo_watcher) = Some ''/proj/ctx.json''"
    by (simp_all add: started_watcher_def demo_watcher_def FileWatcher_init_def demo_config_def)
  have ne: "''/proj/ctx.json'' \<noteq> []"
    by simp
  have broken: "open_json_load broken_context_world ''/proj/ctx.json'' = None"
    "abspath broken_context_world ''/proj/ctx.json'' = ''/proj/ctx.json''"
    by (simp_all add: broken_context_world_def demo_world_def open_json_load_def hello_text_def)
  have whole: "open_json_load demo_world ''/proj/ctx.json'' = Some hello_context"
    "abspath demo_world ''/proj/ctx.json'' = ''/proj/ctx.json''"
    by (simp_all add: demo_world_def open_json_load_def)
  have name: "os_path_basename ''/proj/ctx.json'' = ''ctx.json''"
    by (simp add: os_path_basename_def)
  have held: "context_data (config (started_watcher demo_config)) = hello_context"
    "context_data (config demo_watcher) = JObj []"
    "last_render_time (started_watcher demo_config) = 0"
    "debounce_ms (config (started_watcher demo_config)) = 100"
    by (simp_all add: started_watcher_def demo_watcher_def FileWatcher_init_def demo_config_def
        WeeConfig_init_def)
  have ev: "\<not> is_directory (file_event ''/proj/ctx.json'')"
    "src_path (file_event ''/proj/ctx.json'') = ''/proj/ctx.json''"
    by (simp_all add: file_event_def)
  from context_reload_on_dispatch [OF cf(1) ne, where w = broken_context_world
      and ev = "file_event ''/proj/ctx.json''" and t = 1700000000000]
  have a: "trigger_render broken_context_world (started_watcher demo_config) ''/proj/ctx.json'' =
      (started_watcher demo_config,
       [Print_Change_detected ''ctx.json'', Print_Error_reloading_context]) \<and>
    on_modified broken_context_world 1700000000000 (started_watcher demo_config)
      (file_event ''/proj/ctx.json'') =
      ((started_watcher demo_config)\<lparr>last_render_time := 1700000000000\<rparr>,
       [Print_Change_detected ''ctx.json'', Print_Error_reloading_context])"
    by (simp add: broken name held ev)
  from context_reload_on_dispatch [OF cf(2) ne, where w = demo_world and j = hello_context]
  have b: "context_data (config (fst (trigger_render demo_world demo_watcher ''/proj/ctx.json''))) =
      hello_context"
    by (simp add: whole)
  from a b held show ?thesis by simp
qed

subsection \<open>The window after a failed reload\<close>

text \<open>
  C9. A context event that is dispatched and whose reload fails moves
  \<open>last_render_time\<close> to its clock reading although nothing is rendered; a relevant
  event less than the debounce interval after it is therefore dropped, with the flag set.
  Of the two events the only effects are the two lines printed for the first.
\<close>

theorem failed_reload_consumes_window:
  assumes "context_file (config fw) = Some cf" and "cf \<noteq> []"
    and "\<not> is_directory ev1" and "src_path ev1 = abspath w1 cf"
    and "open_json_load w1 cf = None"
    and "real_of_int (debounce_ms (config fw)) \<le> t1 - last_render_time fw"
    and "relevant_file_event w2 (config fw) ev2"
    and "t2 - t1 < real_of_int (debounce_ms (config fw))"
  shows "on_modified w1 t1 fw ev1 =
           (fw\<lparr>last_render_time := t1\<rparr>,
            [Print_Change_detected (os_path_basename (abspath w1 cf)),
             Print_Error_reloading_context]) \<and>
         on_modified w2 t2 (fw\<lparr>last_render_time := t1\<rparr>) ev2 =
           (fw\<lparr>last_render_time := t1, pending_render := True\<rparr>, []) \<and>
         run_events fw [(w1, t1, ev1), (w2, t2, ev2)] =
           (fw\<lparr>last_render_time := t1, pending_render := True\<rparr>,
            [Print_Change_detected (os_path_basename (abspath w1 cf)),
             Print_Error_reloading_context])"
proof -
  have first: "on_modified w1 t1 fw ev1 =
      (fw\<lparr>last_render_time := t1\<rparr>,
       [Print_Change_detected (os_path_basename (abspath w1 cf)),
        Print_Error_reloading_context])"
    using assms(1-6) by (rule on_modified_reload_failed)
  have second: "on_modified w2 t2 (fw\<lparr>last_render_time := t1\<rparr>) ev2 =
      (fw\<lparr>last_render_time := t1, pending_render := True\<rparr>, [])"
    using on_modified_in_window [of w2 "fw\<lparr>last_render_time := t1\<rparr>" ev2 t2] assms(7,8)
    by simp
  from first second show ?thesis
    by simp
qed

text \<open>
  On the project: the half written context file is dispatched at 0 ms, and the template
  saved 40 ms later is dropped.
\<close>

theorem failed_reload_consumes_window_witness:
  "run_events (started_watcher demo_config)
     [(broken_context_world, 1700000000000, file_event ''/proj/ctx.json''),
      (broken_context_world, 1700000000040, file_event ''/proj/main.html'')] =
     ((started_watcher demo_config)\<lparr>last_render_time := 1700000000000, pending_render := True\<rparr>,
      [Print_Change_detected ''ctx.json'', Print_Error_reloading_context])"
proof -
  have cf: "context_file (config (started_watcher demo_config)) = Some ''/proj/ctx.json''"
    by (simp add: started_watcher_def FileWatcher_init_def demo_config_def)
  have ne: "''/proj/ctx.json'' \<noteq> []"
    by simp
  have ev: "\<not> is_directory (file_event ''/proj/ctx.json'')"
    by (simp add: file_event_def)
  have path: "src_path (file_event ''/proj/ctx.json'') =
      abspath broken_context_world ''/proj/ctx.json''"
    by (simp add: file_event_def broken_context_world_def demo_world_def)
  have broken: "open_json_load broken_context_world ''/proj/ctx.json'' = None"
    by (simp add: broken_context_world_def demo_world_def open_json_load_def hello_text_def)
  have idle: "real_of_int (debounce_ms (config (started_watcher demo_config)))
      \<le> 1700000000000 - last_render_time (started_watcher demo_config)"
    by (simp add: started_watcher_def FileWatcher_init_def demo_config_def WeeConfig_init_def)
  have rel: "relevant_file_event broken_context_world (config (started_watcher demo_config))
      (file_event ''/proj/main.html'')"
    by (simp add: relevant_file_event_def should_render_def file_event_def
        broken_context_world_def demo_world_def started_watcher_def FileWatcher_init_def
        demo_config_def WeeConfig_init_def)
  have near: "1700000000040 - 1700000000000
      < real_of_int (debounce_ms (config (started_watcher demo_config)))"
    by (simp add: started_watcher_def FileWatcher_init_def demo_config_def WeeConfig_init_def)
  have name: "os_path_basename (abspath broken_context_world ''/proj/ctx.json'') = ''ctx.json''"
    by (simp add: os_path_basename_def broken_context_world_def demo_world_def)
  from failed_reload_consumes_window [OF cf ne ev path broken idle rel near] name
  show ?thesis
    by simp
qed

subsection \<open>The first event after the start\<close>

lemma main_configured_watcher:
  assumes "main_configured w0 cfg = (Inr (Some fw), es0)"
  shows "last_render_time fw = 0"
    and "pending_render fw = False"
    and "config fw = cfg\<lparr>context_data := fst (load_context w0 cfg)\<rparr>"
  using assms
  by (auto simp add: main_configured_def FileWatcher_init_def Let_def
      split: prod.splits sum.splits if_splits)

text \<open>
  C10, as the code has it. The watcher that \<open>main_configured\<close> creates after the
  initial render has \<open>last_render_time = 0\<close>, whenever that render took place. Its first
  relevant event, read at clock value \<open>t\<close> (milliseconds since the epoch), is dispatched
  when the debounce interval is at most \<open>t\<close>.
\<close>

theorem first_event_dispatches:
  assumes "main_configured w0 cfg = (Inr (Some fw), es0)"
    and "relevant_file_event w cfg ev"
    and "real_of_int (debounce_ms cfg) \<le> t"
  shows "last_render_time fw = 0 \<and>
         on_modified w t fw ev = trigger_render w (fw\<lparr>last_render_time := t\<rparr>) (src_path ev) \<and>
         dispatches (snd (on_modified w t fw ev)) = 1"
proof -
  note fw = main_configured_watcher [OF assms(1)]
  have rel: "relevant_file_event w (config fw) ev"
    using assms(2) by (simp add: fw(3) relevant_file_event_ignores_context_data)
  have idle: "real_of_int (debounce_ms (config fw)) \<le> t - last_render_time fw"
    using assms(3) by (simp add: fw(1) fw(3))
  from fw(1) on_modified_dispatch [OF rel idle] dispatched_watcher(6) [OF rel idle]
  show ?thesis
    by simp
qed

lemma main_configured_demo:
  "fst (main_configured demo_world (demo_config\<lparr>auto_open := False, debounce_ms := d\<rparr>)) =
     Inr (Some (started_watcher (demo_config\<lparr>auto_open := False, debounce_ms := d\<rparr>)))"
  by (simp add: main_configured_def render_and_generate_pdf_def load_context_def
      open_json_load_def render_template_def load_and_render_def env_get_template_def env_cached_def
        loader_get_source_def os_path_join_def get_environment_def
      html_to_pdf_def started_watcher_def warm_renderer_def FileWatcher_init_def
      demo_world_def demo_config_def WeeConfig_init_def TemplateRenderer_init_def
      title_template_def hello_context_def os_path_dirname_def os_path_basename_def Let_def)

text \<open>On the project with the default interval of 100 ms, the template saved at once.\<close>

theorem first_event_dispatches_witness:
  "fst (main_configured demo_world (demo_config\<lparr>auto_open := False, debounce_ms := 100\<rparr>)) =
     Inr (Some (started_watcher (demo_config\<lparr>auto_open := False, debounce_ms := 100\<rparr>))) \<and>
   last_render_time (started_watcher (demo_config\<lparr>auto_open := False, debounce_ms := 100\<rparr>)) = 0 \<and>
   dispatches (snd (on_modified demo_world 1700000000000
     (started_watcher (demo_config\<lparr>auto_open := False, debounce_ms := 100\<rparr>))
     (file_event ''/proj/main.html''))) = 1"
proof -
  let ?cfg = "demo_config\<lparr>auto_open := False, debounce_ms := 100\<rparr>"
  have start: "main_configured demo_world ?cfg =
      (Inr (Some (started_watcher ?cfg)), snd (main_configured demo_world ?cfg))"
    using main_configured_demo [of 100] by (simp add: prod_eq_iff)
  have rel: "relevant_file_event demo_world ?cfg (file_event ''/proj/main.html'')"
    by (simp add: relevant_file_event_def should_render_def file_event_def demo_world_def
        demo_config_def WeeConfig_init_def)
  have late: "real_of_int (debounce_ms ?cfg) \<le> 1700000000000"
    by simp
  note first = first_event_dispatches [OF start rel late]
  from first have zero: "last_render_time (started_watcher ?cfg) = 0"
    by (rule conjunct1)
  from first have one: "dispatches (snd (on_modified demo_world 1700000000000
      (started_watcher ?cfg) (file_event ''/proj/main.html''))) = 1"
    by (rule conjunct2 [THEN conjunct2])
  from zero one main_configured_demo [of 100] show ?thesis
    by simp
qed

text \<open>
  C10 as worded fails for an interval longer than the time since the epoch. Started with
  \<^verbatim>\<open>--debounce 2000000000000\<close>, the watcher has \<open>last_render_time = 0\<close>; the
  template saved at clock value 1700000000000 has an elapsed time below the interval, so
  \<open>on_modified\<close> sets the flag and drops the event: the first relevant event is not
  dispatched.
\<close>

theorem first_event_dropped_under_long_debounce:
  "fst (main_configured demo_world slow_config) = Inr (Some (started_watcher slow_config)) \<and>
   last_render_time (started_watcher slow_config) = 0 \<and>
   relevant_file_event demo_world (config (started_watcher slow_config))
     (file_event ''/proj/main.html'') \<and>
   on_modified demo_world 1700000000000 (started_watcher slow_config)
     (file_event ''/proj/main.html'') =
     ((started_watcher slow_config)\<lparr>pending_render := True\<rparr>, []) \<and>
   dispatches (snd (on_modified demo_world 1700000000000 (started_watcher slow_config)
     (file_event ''/proj/main.html''))) = 0"
proof -
  have start: "fst (main_configured demo_world slow_config) =
      Inr (Some (started_watcher slow_config))"
    using main_configured_demo [of 2000000000000] by (simp add: slow_config_def)
  have zero: "last_render_time (started_watcher slow_config) = 0"
    by (simp add: started_watcher_def FileWatcher_init_def)
  have rel: "relevant_file_event demo_world (config (started_watcher slow_config))
      (file_event ''/proj/main.html'')"
    by (simp add: relevant_file_event_def should_render_def file_event_def demo_world_def
        started_watcher_def FileWatcher_init_def slow_config_def demo_config_def
        WeeConfig_init_def)
  have win: "1700000000000 - last_render_time (started_watcher slow_config)
      < real_of_int (debounce_ms (config (started_watcher slow_config)))"
    by (simp add: started_watcher_def FileWatcher_init_def slow_config_def)
  note drop = on_modified_in_window [OF rel win]
  from start zero rel drop show ?thesis
    by (simp add: dispatches_def)
qed

end
